theory Spec2Isabelle
  imports Complex_Main "HOL-Library.AList"
begin

section \<open>JavaScript numbers\<close>

text \<open>
  The calculator computes with JavaScript numbers.  The model keeps the special values
  of the number type (the two infinities and NaN) and computes exactly on the finite
  values: rounding and the sign of zero are not modelled (every zero is +0).  The
  operations follow the tables of ECMAScript for the special values, so a division by
  zero returns an infinity or NaN and raises nothing, as in the source language.
\<close>

datatype jsnum = Num real | PosInf | NegInf | NaN

fun js_neg :: "jsnum \<Rightarrow> jsnum" where
  "js_neg (Num a) = Num (- a)"
| "js_neg PosInf = NegInf"
| "js_neg NegInf = PosInf"
| "js_neg NaN = NaN"

fun js_abs :: "jsnum \<Rightarrow> jsnum" where
  "js_abs (Num a) = Num \<bar>a\<bar>"
| "js_abs PosInf = PosInf"
| "js_abs NegInf = PosInf"
| "js_abs NaN = NaN"

fun js_add :: "jsnum \<Rightarrow> jsnum \<Rightarrow> jsnum" where
  "js_add (Num a) (Num b) = Num (a + b)"
| "js_add (Num a) PosInf = PosInf"
| "js_add (Num a) NegInf = NegInf"
| "js_add PosInf (Num b) = PosInf"
| "js_add PosInf PosInf = PosInf"
| "js_add PosInf NegInf = NaN"
| "js_add NegInf (Num b) = NegInf"
| "js_add NegInf PosInf = NaN"
| "js_add NegInf NegInf = NegInf"
| "js_add NaN y = NaN"
| "js_add x NaN = NaN"

definition js_sub :: "jsnum \<Rightarrow> jsnum \<Rightarrow> jsnum" where
  "js_sub x y = js_add x (js_neg y)"

fun js_mul :: "jsnum \<Rightarrow> jsnum \<Rightarrow> jsnum" where
  "js_mul (Num a) (Num b) = Num (a * b)"
| "js_mul (Num a) PosInf = (if a = 0 then NaN else if 0 < a then PosInf else NegInf)"
| "js_mul (Num a) NegInf = (if a = 0 then NaN else if 0 < a then NegInf else PosInf)"
| "js_mul PosInf (Num b) = (if b = 0 then NaN else if 0 < b then PosInf else NegInf)"
| "js_mul NegInf (Num b) = (if b = 0 then NaN else if 0 < b then NegInf else PosInf)"
| "js_mul PosInf PosInf = PosInf"
| "js_mul PosInf NegInf = NegInf"
| "js_mul NegInf PosInf = NegInf"
| "js_mul NegInf NegInf = PosInf"
| "js_mul NaN y = NaN"
| "js_mul x NaN = NaN"

fun js_div :: "jsnum \<Rightarrow> jsnum \<Rightarrow> jsnum" where
  "js_div (Num a) (Num b) =
     (if b = 0 then (if a = 0 then NaN else if 0 < a then PosInf else NegInf)
      else Num (a / b))"
| "js_div (Num a) PosInf = Num 0"
| "js_div (Num a) NegInf = Num 0"
| "js_div PosInf (Num b) = (if 0 \<le> b then PosInf else NegInf)"
| "js_div NegInf (Num b) = (if 0 \<le> b then NegInf else PosInf)"
| "js_div PosInf PosInf = NaN"
| "js_div PosInf NegInf = NaN"
| "js_div NegInf PosInf = NaN"
| "js_div NegInf NegInf = NaN"
| "js_div NaN y = NaN"
| "js_div x NaN = NaN"

text \<open>Comparison \<open><\<close>: false as soon as one side is NaN.\<close>

fun js_lt :: "jsnum \<Rightarrow> jsnum \<Rightarrow> bool" where
  "js_lt (Num a) (Num b) = (a < b)"
| "js_lt (Num a) PosInf = True"
| "js_lt NegInf (Num b) = True"
| "js_lt NegInf PosInf = True"
| "js_lt x y = False"

definition js_gt :: "jsnum \<Rightarrow> jsnum \<Rightarrow> bool" where
  "js_gt x y = js_lt y x"

definition is_integer :: "real \<Rightarrow> bool" where
  "is_integer e = (of_int \<lfloor>e\<rfloor> = e)"

definition is_odd_integer :: "real \<Rightarrow> bool" where
  "is_odd_integer e = (is_integer e \<and> odd \<lfloor>e\<rfloor>)"

text \<open>
  The finite, defined case of \<open>Math.pow\<close>: a nonzero base, and an integral exponent
  when the base is negative.
\<close>

definition real_pow :: "real \<Rightarrow> real \<Rightarrow> real" where
  "real_pow x e = (if is_integer e then x powi \<lfloor>e\<rfloor> else x powr e)"

text \<open>\<open>Math.pow(base, exponent)\<close>, by the cases of Number::exponentiate.\<close>

fun js_pow :: "jsnum \<Rightarrow> jsnum \<Rightarrow> jsnum" where
  "js_pow b NaN = NaN"
| "js_pow b (Num e) =
     (if e = 0 then Num 1
      else case b of
        NaN \<Rightarrow> NaN
      | PosInf \<Rightarrow> (if 0 < e then PosInf else Num 0)
      | NegInf \<Rightarrow> (if 0 < e then (if is_odd_integer e then NegInf else PosInf) else Num 0)
      | Num x \<Rightarrow>
          (if x = 0 then (if 0 < e then Num 0 else PosInf)
           else if x < 0 \<and> \<not> is_integer e then NaN
           else Num (real_pow x e)))"
| "js_pow b PosInf =
     (case b of
        NaN \<Rightarrow> NaN
      | Num x \<Rightarrow> (if 1 < \<bar>x\<bar> then PosInf else if \<bar>x\<bar> = 1 then NaN else Num 0)
      | PosInf \<Rightarrow> PosInf
      | NegInf \<Rightarrow> PosInf)"
| "js_pow b NegInf =
     (case b of
        NaN \<Rightarrow> NaN
      | Num x \<Rightarrow> (if 1 < \<bar>x\<bar> then Num 0 else if \<bar>x\<bar> = 1 then NaN else PosInf)
      | PosInf \<Rightarrow> Num 0
      | NegInf \<Rightarrow> Num 0)"

section \<open>Data model\<close>

record CashFlow =
  period :: nat
  yearLabel :: jsnum
  couponPayment :: jsnum
  principalPayment :: jsnum
  totalCashFlow :: jsnum

datatype bond_kind = par | premium | discount

record BondClassification =
  type :: bond_kind
  description :: string
  difference :: jsnum

record ValuationResult =
  bondPrice :: jsnum
  pvCoupons :: jsnum
  pvFaceValue :: jsnum
  periodicCoupon :: jsnum
  periodicYield :: jsnum
  periods :: real
  cashFlows :: "CashFlow list"
  bondType :: BondClassification

text \<open>
  The state object of \<open>state.js\<close>.  A listener is named by a string; what a listener
  does with the state it is handed is outside the model, which records the call.
\<close>

datatype view_mode = chart | table

datatype field = CouponRate | Ytm | Years

type_synonym listener = string

record app_state =
  faceValue :: real
  couponRate :: real
  ytm :: real
  years :: real
  frequency :: real
  viewMode :: view_mode
  errors :: "(field \<times> string) list"
  bondCalculations :: "ValuationResult option"
  listeners :: "listener list"

record PriceComponents =
  price :: jsnum
  pvCoupons :: jsnum
  pvFaceValue :: jsnum
  periodicCoupon :: jsnum
  periodicYield :: jsnum
  periods :: real

text \<open>
  The parameters are finite numbers: the literals of the self-tests and the parsed,
  validated values of the input fields.
\<close>

record BondParameters =
  faceValue :: real
  couponRate :: real
  ytm :: real
  years :: real
  frequency :: real

section \<open>Bond calculations\<close>

text \<open>
  The loop \<open>for (let t = 1; t <= periods; t++) pvCoupons += ...\<close> of
  \<open>calculateBondPrice\<close>, entered at counter \<open>t\<close> with the sum so far.
\<close>

function pvCoupons_loop :: "jsnum \<Rightarrow> jsnum \<Rightarrow> real \<Rightarrow> nat \<Rightarrow> jsnum \<Rightarrow> jsnum" where
  "pvCoupons_loop pc y n t acc =
     (if real t \<le> n
      then pvCoupons_loop pc y n (Suc t)
             (js_add acc (js_div pc (js_pow (js_add (Num 1) y) (Num (real t)))))
      else acc)"
  by pat_completeness auto
termination
proof (relation "measure (\<lambda>(pc, y, n, t, acc). nat (\<lfloor>n\<rfloor> + 1) - t)")
  show "wf (measure (\<lambda>(pc, y, n, t, acc). nat (\<lfloor>n\<rfloor> + 1) - t))"
    by simp
next
  fix pc y :: jsnum and n :: real and t :: nat and acc :: jsnum
  assume "real t \<le> n"
  then have "int t \<le> \<lfloor>n\<rfloor>"
    by (simp add: le_floor_iff)
  then show "((pc, y, n, Suc t, js_add acc (js_div pc (js_pow (js_add (Num 1) y) (Num (real t))))),
              (pc, y, n, t, acc)) \<in> measure (\<lambda>(pc, y, n, t, acc). nat (\<lfloor>n\<rfloor> + 1) - t)"
    by simp
qed

definition calculateBondPrice :: "BondParameters \<Rightarrow> PriceComponents" where
  "calculateBondPrice p =
     (let periods = years p * frequency p;
          periodicCouponRate = js_div (js_div (Num (couponRate p)) (Num 100)) (Num (frequency p));
          periodicYield = js_div (js_div (Num (ytm p)) (Num 100)) (Num (frequency p));
          periodicCoupon = js_mul (Num (faceValue p)) periodicCouponRate;
          pvCoupons = pvCoupons_loop periodicCoupon periodicYield periods 1 (Num 0);
          pvFaceValue = js_div (Num (faceValue p))
                          (js_pow (js_add (Num 1) periodicYield) (Num periods));
          price = js_add pvCoupons pvFaceValue
      in \<lparr> price = price, pvCoupons = pvCoupons, pvFaceValue = pvFaceValue,
           periodicCoupon = periodicCoupon, periodicYield = periodicYield,
           periods = periods \<rparr>)"

text \<open>The entry pushed by the body of the loop of \<open>generateCashFlows\<close> at counter \<open>t\<close>.\<close>

definition periodic_entry :: "real \<Rightarrow> real \<Rightarrow> real \<Rightarrow> jsnum \<Rightarrow> nat \<Rightarrow> CashFlow" where
  "periodic_entry fv freq n pc t =
     (let couponPayment = pc;
          principalPayment = (if real t = n then Num fv else Num 0);
          totalCashFlow = js_add couponPayment principalPayment
      in \<lparr> period = t, yearLabel = js_div (Num (real t)) (Num freq),
           couponPayment = couponPayment, principalPayment = principalPayment,
           totalCashFlow = totalCashFlow \<rparr>)"

text \<open>
  The loop \<open>for (let t = 1; t <= periods; t++) cashFlows.push(...)\<close>, entered at counter
  \<open>t\<close> with the array built so far.
\<close>

function cashFlows_loop ::
  "real \<Rightarrow> real \<Rightarrow> real \<Rightarrow> jsnum \<Rightarrow> nat \<Rightarrow> CashFlow list \<Rightarrow> CashFlow list" where
  "cashFlows_loop fv freq n pc t arr =
     (if real t \<le> n
      then cashFlows_loop fv freq n pc (Suc t) (arr @ [periodic_entry fv freq n pc t])
      else arr)"
  by pat_completeness auto
termination
proof (relation "measure (\<lambda>(fv, freq, n, pc, t, arr). nat (\<lfloor>n\<rfloor> + 1) - t)")
  show "wf (measure (\<lambda>(fv, freq, n, pc, t, arr). nat (\<lfloor>n\<rfloor> + 1) - t))"
    by simp
next
  fix fv freq n :: real and pc :: jsnum and t :: nat and arr :: "CashFlow list"
  assume "real t \<le> n"
  then have "int t \<le> \<lfloor>n\<rfloor>"
    by (simp add: le_floor_iff)
  then show "((fv, freq, n, pc, Suc t, arr @ [periodic_entry fv freq n pc t]),
              (fv, freq, n, pc, t, arr))
             \<in> measure (\<lambda>(fv, freq, n, pc, t, arr). nat (\<lfloor>n\<rfloor> + 1) - t)"
    by simp
qed

text \<open>
  \<open>generateCashFlows({ faceValue, frequency, years, periodicCoupon, bondPrice })\<close>, the
  destructured fields as the arguments \<open>fv\<close>, \<open>freq\<close>, \<open>yrs\<close>, \<open>pc\<close> and \<open>bp\<close>.
\<close>

definition generateCashFlows :: "real \<Rightarrow> real \<Rightarrow> real \<Rightarrow> jsnum \<Rightarrow> jsnum \<Rightarrow> CashFlow list" where
  "generateCashFlows fv freq yrs pc bp =
     (let periods = yrs * freq;
          cashFlows = [\<lparr> period = 0, yearLabel = Num 0, couponPayment = Num 0,
                         principalPayment = js_neg bp,
                         totalCashFlow = js_neg bp \<rparr>]
      in cashFlows_loop fv freq periods pc 1 cashFlows)"

text \<open>
  \<open>analyzeBondType(bondPrice, faceValue, tolerance = 0.01)\<close>: the third argument is
  optional and \<open>None\<close> is the call that leaves it out.
\<close>

definition analyzeBondType :: "jsnum \<Rightarrow> jsnum \<Rightarrow> jsnum option \<Rightarrow> BondClassification" where
  "analyzeBondType bp fv tolerance_arg =
     (let tolerance = (case tolerance_arg of None \<Rightarrow> Num (1 / 100) | Some tol \<Rightarrow> tol);
          diff = js_sub bp fv
      in if js_lt (js_abs diff) tolerance
         then \<lparr> type = par, description = ''Par bond'', difference = Num 0 \<rparr>
         else if js_gt diff (Num 0)
         then \<lparr> type = premium, description = ''Premium bond'', difference = diff \<rparr>
         else \<lparr> type = discount, description = ''Discount bond'', difference = js_abs diff \<rparr>)"

definition calculateBondMetrics :: "BondParameters \<Rightarrow> ValuationResult" where
  "calculateBondMetrics params =
     (let priceData = calculateBondPrice params;
          cashFlows = generateCashFlows (faceValue params) (frequency params) (years params)
                        (periodicCoupon priceData) (price priceData);
          bondType = analyzeBondType (price priceData) (Num (faceValue params)) None
      in \<lparr> bondPrice = price priceData,
           pvCoupons = pvCoupons priceData,
           pvFaceValue = pvFaceValue priceData,
           periodicCoupon = periodicCoupon priceData,
           periodicYield = periodicYield priceData,
           periods = periods priceData,
           cashFlows = cashFlows,
           bondType = bondType \<rparr>)"

section \<open>State store and input pipeline\<close>

definition initial_state :: app_state where
  "initial_state =
     \<lparr> app_state.faceValue = 100, app_state.couponRate = 86 / 10, app_state.ytm = 65 / 10,
       app_state.years = 5, app_state.frequency = 2, viewMode = chart, errors = [],
       bondCalculations = None, listeners = [] \<rparr>"

text \<open>
  A call \<open>fn(state)\<close> made by \<open>setState\<close>: the listener and the state it was handed.
  The program is the state and the calls made so far, in order.
\<close>

type_synonym notification = "listener \<times> app_state"

type_synonym world = "app_state \<times> notification list"

text \<open>One property of the object passed to \<open>setState\<close>.\<close>

datatype update =
    SetField field real
  | SetErrors "(field \<times> string) list"
  | SetBondCalculations "ValuationResult option"
  | SetViewMode view_mode

fun assign_property :: "app_state \<Rightarrow> update \<Rightarrow> app_state" where
  "assign_property s (SetField CouponRate v) = s\<lparr>app_state.couponRate := v\<rparr>"
| "assign_property s (SetField Ytm v) = s\<lparr>app_state.ytm := v\<rparr>"
| "assign_property s (SetField Years v) = s\<lparr>app_state.years := v\<rparr>"
| "assign_property s (SetErrors es) = s\<lparr>errors := es\<rparr>"
| "assign_property s (SetBondCalculations c) = s\<lparr>bondCalculations := c\<rparr>"
| "assign_property s (SetViewMode v) = s\<lparr>viewMode := v\<rparr>"

text \<open>\<open>Object.assign(state, updates)\<close>\<close>

definition object_assign :: "app_state \<Rightarrow> update list \<Rightarrow> app_state" where
  "object_assign s updates = foldl assign_property s updates"

definition setState :: "update list \<Rightarrow> world \<Rightarrow> world" where
  "setState updates w =
     (let state = object_assign (fst w) updates
      in (state, snd w @ map (\<lambda>fn. (fn, state)) (listeners state)))"

definition subscribe :: "listener \<Rightarrow> world \<Rightarrow> world" where
  "subscribe fn w = ((fst w)\<lparr>listeners := listeners (fst w) @ [fn]\<rparr>, snd w)"

text \<open>
  Modelled from the spec: \<open>validation.js\<close> is not among the sources.  The validator
  contract gives \<open>hasErrors(errorMap) -> boolean\<close>, true when an error is active for some
  field.
\<close>

definition hasErrors :: "(field \<times> string) list \<Rightarrow> bool" where
  "hasErrors es = (es \<noteq> [])"

text \<open>
  Modelled from the spec: \<open>validation.js\<close> is not among the sources.  The validator
  contract gives \<open>validateField(fieldName, rawValue) -> error message or none\<close> with the
  constraints couponRate \<ge> 0, ytm a finite real and years > 0; the wording of the
  messages is not given.
\<close>

fun validateField :: "field \<Rightarrow> real \<Rightarrow> string option" where
  "validateField CouponRate v = (if 0 \<le> v then None else Some ''couponRate'')"
| "validateField Ytm v = None"
| "validateField Years v = (if 0 < v then None else Some ''years'')"

text \<open>
  What a \<open>catch\<close> clause can receive: the DomainError that the specification names, or
  any other error.  The source defines no error class and has no \<open>throw\<close> statement.
\<close>

datatype exception = DomainError | OtherError string

text \<open>
  A call of \<open>calculateBondMetrics\<close> as the \<open>try\<close> block of \<open>updateCalculations\<close> sees
  it: the exception thrown or the value returned.  Neither \<open>calculateBondMetrics\<close> nor a
  function it calls has a \<open>throw\<close> statement, and arithmetic on numbers throws nothing.
\<close>

definition calculateBondMetrics_call :: "BondParameters \<Rightarrow> exception + ValuationResult" where
  "calculateBondMetrics_call params = Inr (calculateBondMetrics params)"

definition updateCalculations :: "world \<Rightarrow> world" where
  "updateCalculations w =
     (let state = fst w
      in if hasErrors (errors state) then setState [SetBondCalculations None] w
         else case calculateBondMetrics_call
                     \<lparr> faceValue = app_state.faceValue state,
                       couponRate = app_state.couponRate state,
                       ytm = app_state.ytm state,
                       years = app_state.years state,
                       frequency = app_state.frequency state \<rparr> of
                Inr calculations \<Rightarrow> setState [SetBondCalculations (Some calculations)] w
              | Inl error \<Rightarrow> setState [SetBondCalculations None] w)"

text \<open>
  The body of the debounced callback that \<open>setupInputListeners\<close> installs for \<open>field\<close>,
  run with the parsed content of the input element.  The validator is an argument.
\<close>

definition debouncedUpdate ::
  "(field \<Rightarrow> real \<Rightarrow> string option) \<Rightarrow> field \<Rightarrow> real \<Rightarrow> world \<Rightarrow> world" where
  "debouncedUpdate validate fld v w =
     (let error = validate fld v;
          errors = (case error of
                      Some msg \<Rightarrow> AList.update fld msg (errors (fst w))
                    | None \<Rightarrow> AList.delete fld (errors (fst w)));
          w1 = setState [SetField fld v, SetErrors errors] w
      in if \<not> hasErrors errors then updateCalculations w1 else w1)"

text \<open>
  \<open>init\<close>: the subscription of \<open>handleStateChange\<close> and the initial calculation.  The
  set-up of the event listeners and the self-tests leave the state alone; on a viewport
  narrower than 600 pixels \<open>init\<close> also sets viewMode to table before it subscribes, which
  is left out.
\<close>

definition init :: "world \<Rightarrow> world" where
  "init w = updateCalculations (subscribe ''handleStateChange'' w)"

declare pvCoupons_loop.simps [simp del]
declare cashFlows_loop.simps [simp del]
declare js_pow.simps [simp del]

section \<open>The pricing formula as the specification writes it\<close>

text \<open>
  The reference definition of the price components, over the reals: the sum runs over the
  whole periods \<open>t = 1, 2, \<dots>\<close> up to \<open>periods\<close>.
\<close>

definition reference_periods :: "BondParameters \<Rightarrow> real" where
  "reference_periods p = years p * frequency p"

definition reference_periodicCoupon :: "BondParameters \<Rightarrow> real" where
  "reference_periodicCoupon p = faceValue p * (couponRate p / 100 / frequency p)"

definition reference_periodicYield :: "BondParameters \<Rightarrow> real" where
  "reference_periodicYield p = ytm p / 100 / frequency p"

definition reference_pvCoupons :: "BondParameters \<Rightarrow> real" where
  "reference_pvCoupons p =
     (\<Sum>t = 1..nat \<lfloor>reference_periods p\<rfloor>.
        reference_periodicCoupon p / (1 + reference_periodicYield p) ^ t)"

definition reference_pvFaceValue :: "BondParameters \<Rightarrow> real" where
  "reference_pvFaceValue p =
     faceValue p / real_pow (1 + reference_periodicYield p) (reference_periods p)"

definition reference_price :: "BondParameters \<Rightarrow> real" where
  "reference_price p = reference_pvCoupons p + reference_pvFaceValue p"

text \<open>
  Where the reference is defined: the divisions are by nonzero numbers, and a negative
  base is raised to a whole power only.
\<close>

definition reference_defined :: "BondParameters \<Rightarrow> bool" where
  "reference_defined p =
     (frequency p \<noteq> 0 \<and> 1 + reference_periodicYield p \<noteq> 0 \<and>
      (0 < 1 + reference_periodicYield p \<or> is_integer (reference_periods p)))"

section \<open>Present value of a schedule\<close>

text \<open>
  The present value of one entry of a schedule, discounted at \<open>y\<close> per period by
  \<open>(1 + y)^(- period)\<close>, and the net present value of a schedule: the sum of the
  present values of its entries, in the order of the schedule.
\<close>

definition present_value :: "jsnum \<Rightarrow> CashFlow \<Rightarrow> jsnum" where
  "present_value y cf =
     js_mul (totalCashFlow cf) (js_pow (js_add (Num 1) y) (Num (- real (period cf))))"

definition net_present_value :: "jsnum \<Rightarrow> CashFlow list \<Rightarrow> jsnum" where
  "net_present_value y cfs = foldl js_add (Num 0) (map (present_value y) cfs)"

text \<open>The entry that \<open>generateCashFlows\<close> pushes before its loop.\<close>

definition purchase_entry :: "jsnum \<Rightarrow> CashFlow" where
  "purchase_entry bp =
     \<lparr> period = 0, yearLabel = Num 0, couponPayment = Num 0,
       principalPayment = js_neg bp, totalCashFlow = js_neg bp \<rparr>"

text \<open>
  The object that \<open>updateCalculations\<close> passes to \<open>calculateBondMetrics\<close>: the five
  parameters read from the state.
\<close>

definition state_parameters :: "app_state \<Rightarrow> BondParameters" where
  "state_parameters state =
     \<lparr> faceValue = app_state.faceValue state,
       couponRate = app_state.couponRate state,
       ytm = app_state.ytm state,
       years = app_state.years state,
       frequency = app_state.frequency state \<rparr>"

text \<open>The state after \<open>init\<close>, and the result it holds.\<close>

definition default_parameters :: BondParameters where
  "default_parameters =
     \<lparr> faceValue = 100, couponRate = 86 / 10, ytm = 65 / 10, years = 5, frequency = 2 \<rparr>"

definition started_state :: app_state where
  "started_state =
     initial_state\<lparr> listeners := [''handleStateChange''],
                    bondCalculations := Some (calculateBondMetrics default_parameters) \<rparr>"

section \<open>Arithmetic of the model\<close>

lemma real_le_iff_le_nat_floor: "1 \<le> t \<Longrightarrow> (real t \<le> n) = (t \<le> nat \<lfloor>n\<rfloor>)"
proof -
  assume t: "1 \<le> t"
  have "(real t \<le> n) = (int t \<le> \<lfloor>n\<rfloor>)"
    by (simp add: le_floor_iff)
  also have "\<dots> = (t \<le> nat \<lfloor>n\<rfloor>)"
    using t by linarith
  finally show ?thesis .
qed

lemma is_integer_of_nat: "is_integer (real k)"
  by (simp add: is_integer_def)

lemma is_integer_minus_of_nat: "is_integer (- real k)"
proof -
  have "- real k = of_int (- int k)" by simp
  then show ?thesis unfolding is_integer_def by (metis floor_of_int)
qed

lemma js_pow_nat: "b \<noteq> 0 \<Longrightarrow> js_pow (Num b) (Num (real k)) = Num (b ^ k)"
  by (simp add: js_pow.simps real_pow_def is_integer_def)

lemma js_pow_neg_nat: "b \<noteq> 0 \<Longrightarrow> js_pow (Num b) (Num (- real k)) = Num (1 / b ^ k)"
proof -
  assume b: "b \<noteq> 0"
  have e: "- real k = of_int (- int k)" by simp
  have fl: "\<lfloor>- real k\<rfloor> = - int k"
    unfolding e by (rule floor_of_int)
  have "b powi (- int k) = 1 / b ^ k"
    by (simp add: power_int_minus field_simps)
  with b fl show ?thesis
    by (simp add: js_pow.simps real_pow_def is_integer_minus_of_nat)
qed

lemma foldl_discount_finite:
  "b \<noteq> 0 \<Longrightarrow>
   foldl (\<lambda>a k. js_add a (js_div (Num c) (js_pow (Num b) (Num (real k))))) (Num a0) ks =
     Num (a0 + (\<Sum>k\<leftarrow>ks. c / b ^ k))"
  by (induction ks arbitrary: a0) (simp_all add: js_pow_nat add.assoc)

lemma pvCoupons_loop_foldl:
  "1 \<le> t \<Longrightarrow>
   pvCoupons_loop pc y n t acc =
     foldl (\<lambda>a k. js_add a (js_div pc (js_pow (js_add (Num 1) y) (Num (real k))))) acc
       [t..<Suc (nat \<lfloor>n\<rfloor>)]"
proof (induction pc y n t acc rule: pvCoupons_loop.induct)
  case (1 pc y n t acc)
  show ?case
  proof (cases "real t \<le> n")
    case True
    with "1.prems" have le: "t \<le> nat \<lfloor>n\<rfloor>"
      by (simp add: real_le_iff_le_nat_floor)
    then have "[t..<Suc (nat \<lfloor>n\<rfloor>)] = t # [Suc t..<Suc (nat \<lfloor>n\<rfloor>)]"
      by (simp add: upt_conv_Cons)
    moreover have "pvCoupons_loop pc y n t acc =
        pvCoupons_loop pc y n (Suc t)
          (js_add acc (js_div pc (js_pow (js_add (Num 1) y) (Num (real t)))))"
      using True by (subst pvCoupons_loop.simps) simp
    ultimately show ?thesis
      using "1.IH" [OF True] by simp
  next
    case False
    with "1.prems" have "\<not> t \<le> nat \<lfloor>n\<rfloor>"
      by (simp add: real_le_iff_le_nat_floor)
    moreover have "pvCoupons_loop pc y n t acc = acc"
      using False by (subst pvCoupons_loop.simps) simp
    ultimately show ?thesis
      by simp
  qed
qed

lemma cashFlows_loop_append:
  "1 \<le> t \<Longrightarrow>
   cashFlows_loop fv freq n pc t arr =
     arr @ map (periodic_entry fv freq n pc) [t..<Suc (nat \<lfloor>n\<rfloor>)]"
proof (induction fv freq n pc t arr rule: cashFlows_loop.induct)
  case (1 fv freq n pc t arr)
  show ?case
  proof (cases "real t \<le> n")
    case True
    with "1.prems" have le: "t \<le> nat \<lfloor>n\<rfloor>"
      by (simp add: real_le_iff_le_nat_floor)
    then have "[t..<Suc (nat \<lfloor>n\<rfloor>)] = t # [Suc t..<Suc (nat \<lfloor>n\<rfloor>)]"
      by (simp add: upt_conv_Cons)
    moreover have "cashFlows_loop fv freq n pc t arr =
        cashFlows_loop fv freq n pc (Suc t) (arr @ [periodic_entry fv freq n pc t])"
      using True by (subst cashFlows_loop.simps) simp
    ultimately show ?thesis
      using "1.IH" [OF True] by simp
  next
    case False
    with "1.prems" have "\<not> t \<le> nat \<lfloor>n\<rfloor>"
      by (simp add: real_le_iff_le_nat_floor)
    moreover have "cashFlows_loop fv freq n pc t arr = arr"
      using False by (subst cashFlows_loop.simps) simp
    ultimately show ?thesis
      by simp
  qed
qed

section \<open>The price\<close>

lemma real_pow_nonzero: "b \<noteq> 0 \<Longrightarrow> real_pow b e \<noteq> 0"
  by (simp add: real_pow_def)

lemma js_pow_finite:
  "b \<noteq> 0 \<Longrightarrow> 0 < b \<or> is_integer e \<Longrightarrow> js_pow (Num b) (Num e) = Num (real_pow b e)"
  by (auto simp: js_pow.simps real_pow_def is_integer_def)

lemma sum_list_upt_interval: "(\<Sum>k\<leftarrow>[1..<Suc m]. f k) = (\<Sum>k = 1..m. (f k :: real))"
proof -
  have "(\<Sum>k\<leftarrow>[1..<Suc m]. f k) = sum f (set [1..<Suc m])"
    by (rule interv_sum_list_conv_sum_set_nat)
  also have "set [1..<Suc m] = {1..m}"
    by (simp only: set_upt atLeastLessThanSuc_atLeastAtMost)
  finally show ?thesis .
qed

lemma periodicYield_finite:
  "frequency p \<noteq> 0 \<Longrightarrow> periodicYield (calculateBondPrice p) = Num (reference_periodicYield p)"
  by (simp add: calculateBondPrice_def Let_def reference_periodicYield_def)

lemma periodicCoupon_finite:
  "frequency p \<noteq> 0 \<Longrightarrow> periodicCoupon (calculateBondPrice p) = Num (reference_periodicCoupon p)"
  by (simp add: calculateBondPrice_def Let_def reference_periodicCoupon_def)

lemma pvCoupons_finite:
  assumes "frequency p \<noteq> 0" and "1 + reference_periodicYield p \<noteq> 0"
  shows "pvCoupons (calculateBondPrice p) = Num (reference_pvCoupons p)"
proof -
  let ?b = "1 + reference_periodicYield p"
  let ?c = "reference_periodicCoupon p"
  have "pvCoupons (calculateBondPrice p) =
      pvCoupons_loop (Num ?c) (Num (reference_periodicYield p)) (reference_periods p) 1 (Num 0)"
    using assms(1)
    by (simp add: calculateBondPrice_def Let_def reference_periodicYield_def
        reference_periodicCoupon_def reference_periods_def)
  also have "\<dots> = foldl (\<lambda>a k. js_add a (js_div (Num ?c) (js_pow (Num ?b) (Num (real k)))))
      (Num 0) [1..<Suc (nat \<lfloor>reference_periods p\<rfloor>)]"
    by (simp add: pvCoupons_loop_foldl)
  also have "\<dots> = Num (0 + (\<Sum>k\<leftarrow>[1..<Suc (nat \<lfloor>reference_periods p\<rfloor>)]. ?c / ?b ^ k))"
    using assms(2) by (rule foldl_discount_finite)
  also have "\<dots> = Num (reference_pvCoupons p)"
    by (simp only: sum_list_upt_interval reference_pvCoupons_def add_0)
  finally show ?thesis .
qed

lemma pvFaceValue_finite:
  assumes "reference_defined p"
  shows "pvFaceValue (calculateBondPrice p) = Num (reference_pvFaceValue p)"
proof -
  let ?b = "1 + reference_periodicYield p"
  from assms have f: "frequency p \<noteq> 0" and b: "?b \<noteq> 0"
    and d: "0 < ?b \<or> is_integer (reference_periods p)"
    by (simp_all add: reference_defined_def)
  have "pvFaceValue (calculateBondPrice p) =
      js_div (Num (faceValue p)) (js_pow (Num ?b) (Num (reference_periods p)))"
    using f
    by (simp add: calculateBondPrice_def Let_def reference_periodicYield_def reference_periods_def)
  also have "\<dots> = js_div (Num (faceValue p)) (Num (real_pow ?b (reference_periods p)))"
    using b d by (simp add: js_pow_finite)
  also have "\<dots> = Num (reference_pvFaceValue p)"
    using b by (simp add: real_pow_nonzero reference_pvFaceValue_def)
  finally show ?thesis .
qed

text \<open>
  C1: \<open>calculateBondPrice\<close> returns the price components of the reference definition.
  For every input the returned price is the sum of the two returned components and the
  returned periods is years \<times> frequency; wherever the reference is defined, the returned
  record is the reference one: periodicCoupon = faceValue \<times> couponRate/100/frequency,
  periodicYield = ytm/100/frequency, pvCoupons = the sum over t = 1..periods of
  periodicCoupon/(1+periodicYield)^t, pvFaceValue = faceValue/(1+periodicYield)^periods
  and price = pvCoupons + pvFaceValue.
\<close>

theorem calculateBondPrice_reference:
  "price (calculateBondPrice p) =
     js_add (pvCoupons (calculateBondPrice p)) (pvFaceValue (calculateBondPrice p)) \<and>
   periods (calculateBondPrice p) = years p * frequency p \<and>
   (reference_defined p \<longrightarrow>
    calculateBondPrice p =
      \<lparr> price = Num (reference_pvCoupons p + reference_pvFaceValue p),
        pvCoupons = Num (reference_pvCoupons p),
        pvFaceValue = Num (reference_pvFaceValue p),
        periodicCoupon = Num (reference_periodicCoupon p),
        periodicYield = Num (reference_periodicYield p),
        periods = reference_periods p \<rparr>)"
proof (intro conjI impI)
  show "price (calculateBondPrice p) =
     js_add (pvCoupons (calculateBondPrice p)) (pvFaceValue (calculateBondPrice p))"
    by (simp add: calculateBondPrice_def Let_def)
  show per: "periods (calculateBondPrice p) = years p * frequency p"
    by (simp add: calculateBondPrice_def Let_def)
  assume d: "reference_defined p"
  then have f: "frequency p \<noteq> 0" and b: "1 + reference_periodicYield p \<noteq> 0"
    by (simp_all add: reference_defined_def)
  have pr: "price (calculateBondPrice p) =
     js_add (pvCoupons (calculateBondPrice p)) (pvFaceValue (calculateBondPrice p))"
    by (simp add: calculateBondPrice_def Let_def)
  show "calculateBondPrice p =
      \<lparr> price = Num (reference_pvCoupons p + reference_pvFaceValue p),
        pvCoupons = Num (reference_pvCoupons p),
        pvFaceValue = Num (reference_pvFaceValue p),
        periodicCoupon = Num (reference_periodicCoupon p),
        periodicYield = Num (reference_periodicYield p),
        periods = reference_periods p \<rparr>"
    by (rule PriceComponents.equality)
       (simp_all add: pr per pvCoupons_finite [OF f b] pvFaceValue_finite [OF d]
          periodicCoupon_finite [OF f] periodicYield_finite [OF f] reference_periods_def)
qed

theorem calculateBondPrice_reference_witness:
  "reference_defined \<lparr> faceValue = 100, couponRate = 10, ytm = 100, years = 2, frequency = 1 \<rparr> \<and>
   calculateBondPrice \<lparr> faceValue = 100, couponRate = 10, ytm = 100, years = 2, frequency = 1 \<rparr> =
     \<lparr> price = Num (65 / 2), pvCoupons = Num (15 / 2), pvFaceValue = Num 25,
       periodicCoupon = Num 10, periodicYield = Num 1, periods = 2 \<rparr>"
  using calculateBondPrice_reference
    [of "\<lparr> faceValue = 100, couponRate = 10, ytm = 100, years = 2, frequency = 1 \<rparr>"]
  by (simp add: reference_defined_def reference_periodicYield_def reference_periods_def
      reference_pvCoupons_def reference_pvFaceValue_def reference_periodicCoupon_def
      is_integer_def real_pow_def numeral_2_eq_2)

section \<open>The cash-flow schedule\<close>

lemma nat_floor_of_nat: "nat \<lfloor>real n\<rfloor> = n"
  by simp

lemma generateCashFlows_eq:
  "generateCashFlows fv freq yrs pc bp =
     purchase_entry bp #
       map (periodic_entry fv freq (yrs * freq) pc) [1..<Suc (nat \<lfloor>yrs * freq\<rfloor>)]"
  by (simp add: generateCashFlows_def Let_def cashFlows_loop_append purchase_entry_def)

lemma js_add_zero_neg: "js_add (Num 0) (js_neg x) = js_neg x"
  by (cases x) simp_all

lemma nth_schedule:
  "1 \<le> k \<Longrightarrow> k \<le> m \<Longrightarrow> (e # map f [1..<Suc m]) ! k = f k"
proof -
  assume k: "1 \<le> k" "k \<le> m"
  then obtain j where j: "k = Suc j" by (cases k) auto
  with k have "j < length [1..<Suc m]" by simp
  then have "map f [1..<Suc m] ! j = f ([1..<Suc m] ! j)" by (rule nth_map)
  also have "[1..<Suc m] ! j = 1 + j" using k j by (intro nth_upt) simp
  finally show ?thesis using j by simp
qed

text \<open>
  C3: when years \<times> frequency is a positive integer \<open>n\<close>, \<open>generateCashFlows\<close> returns
  exactly \<open>n + 1\<close> entries.  Entry 0 has period 0, couponPayment 0 and principalPayment
  = \<open>- bondPrice\<close>; every entry of the periods 1 to \<open>n - 1\<close> has couponPayment =
  periodicCoupon and principalPayment = 0; the last entry has couponPayment =
  periodicCoupon and principalPayment = faceValue; and every entry has totalCashFlow =
  couponPayment + principalPayment and yearLabel = period / frequency.
\<close>

theorem generateCashFlows_schedule:
  assumes n: "yrs * freq = real n" and pos: "1 \<le> n"
  shows "length (generateCashFlows fv freq yrs pc bp) = n + 1 \<and>
     generateCashFlows fv freq yrs pc bp ! 0 =
       \<lparr> period = 0, yearLabel = Num 0, couponPayment = Num 0,
         principalPayment = js_neg bp, totalCashFlow = js_neg bp \<rparr> \<and>
     (\<forall>k. 1 \<le> k \<and> k < n \<longrightarrow>
        generateCashFlows fv freq yrs pc bp ! k =
          \<lparr> period = k, yearLabel = js_div (Num (real k)) (Num freq), couponPayment = pc,
            principalPayment = Num 0, totalCashFlow = js_add pc (Num 0) \<rparr>) \<and>
     generateCashFlows fv freq yrs pc bp ! n =
       \<lparr> period = n, yearLabel = js_div (Num (real n)) (Num freq), couponPayment = pc,
         principalPayment = Num fv, totalCashFlow = js_add pc (Num fv) \<rparr> \<and>
     (\<forall>cf \<in> set (generateCashFlows fv freq yrs pc bp).
        totalCashFlow cf = js_add (couponPayment cf) (principalPayment cf) \<and>
        yearLabel cf = js_div (Num (real (period cf))) (Num freq))"
proof -
  let ?f = "periodic_entry fv freq (real n) pc"
  have eq: "generateCashFlows fv freq yrs pc bp = purchase_entry bp # map ?f [1..<Suc n]"
    by (simp only: generateCashFlows_eq n nat_floor_of_nat)
  from n pos have freq: "freq \<noteq> 0" by auto
  have len: "length (generateCashFlows fv freq yrs pc bp) = n + 1"
    by (simp add: eq)
  have first: "generateCashFlows fv freq yrs pc bp ! 0 =
       \<lparr> period = 0, yearLabel = Num 0, couponPayment = Num 0,
         principalPayment = js_neg bp, totalCashFlow = js_neg bp \<rparr>"
    by (simp add: eq purchase_entry_def)
  have inner: "generateCashFlows fv freq yrs pc bp ! k =
          \<lparr> period = k, yearLabel = js_div (Num (real k)) (Num freq), couponPayment = pc,
            principalPayment = Num 0, totalCashFlow = js_add pc (Num 0) \<rparr>"
    if "1 \<le> k \<and> k < n" for k
  proof -
    from that have "generateCashFlows fv freq yrs pc bp ! k = ?f k"
      by (simp only: eq) (rule nth_schedule, simp_all)
    with that show ?thesis by (simp add: periodic_entry_def Let_def)
  qed
  have final: "generateCashFlows fv freq yrs pc bp ! n =
       \<lparr> period = n, yearLabel = js_div (Num (real n)) (Num freq), couponPayment = pc,
         principalPayment = Num fv, totalCashFlow = js_add pc (Num fv) \<rparr>"
  proof -
    from pos have "generateCashFlows fv freq yrs pc bp ! n = ?f n"
      by (simp only: eq) (rule nth_schedule, simp_all)
    then show ?thesis by (simp add: periodic_entry_def Let_def)
  qed
  have every: "totalCashFlow cf = js_add (couponPayment cf) (principalPayment cf) \<and>
        yearLabel cf = js_div (Num (real (period cf))) (Num freq)"
    if "cf \<in> set (generateCashFlows fv freq yrs pc bp)" for cf
  proof -
    from that consider "cf = purchase_entry bp" | k where "cf = ?f k"
      by (auto simp: eq)
    then show ?thesis
    proof cases
      case 1
      with freq show ?thesis by (simp add: purchase_entry_def js_add_zero_neg)
    next
      case 2
      then show ?thesis by (simp add: periodic_entry_def Let_def)
    qed
  qed
  from len first inner final every show ?thesis by blast
qed

theorem generateCashFlows_schedule_witness:
  "(1 / 2) * 4 = real 2 \<and> 1 \<le> (2::nat) \<and>
   generateCashFlows 100 4 (1 / 2) (Num 2) (Num 98) =
     [\<lparr> period = 0, yearLabel = Num 0, couponPayment = Num 0,
        principalPayment = Num (- 98), totalCashFlow = Num (- 98) \<rparr>,
      \<lparr> period = 1, yearLabel = Num (1 / 4), couponPayment = Num 2,
        principalPayment = Num 0, totalCashFlow = Num 2 \<rparr>,
      \<lparr> period = 2, yearLabel = Num (1 / 2), couponPayment = Num 2,
        principalPayment = Num 100, totalCashFlow = Num 102 \<rparr>]"
  using generateCashFlows_schedule [of "1 / 2" 4 2 100 "Num 2" "Num 98"]
  by (simp add: generateCashFlows_eq purchase_entry_def periodic_entry_def Let_def
      numeral_2_eq_2)

lemma floor_less_of_fractional: "\<not> is_integer x \<Longrightarrow> real k \<noteq> x"
  using is_integer_of_nat [of k] by auto

text \<open>
  C9: when years \<times> frequency is positive and not an integer, \<open>generateCashFlows\<close> returns
  only \<open>\<lfloor>years \<times> frequency\<rfloor> + 1\<close> entries and the test \<open>t === periods\<close> never
  succeeds: the principalPayment of every entry after the purchase is 0, so no entry
  carries the redemption of the face value; and the periods that \<open>calculateBondPrice\<close>
  returns is the product itself, which is not an integer.
\<close>

theorem generateCashFlows_fractional_periods:
  assumes pos: "0 < yrs * freq" and frac: "\<not> is_integer (yrs * freq)"
  shows "int (length (generateCashFlows fv freq yrs pc bp)) = \<lfloor>yrs * freq\<rfloor> + 1 \<and>
     (\<forall>cf \<in> set (generateCashFlows fv freq yrs pc bp).
        principalPayment cf = (if period cf = 0 then js_neg bp else Num 0)) \<and>
     (fv \<noteq> 0 \<and> bp \<noteq> Num (- fv) \<longrightarrow>
        (\<forall>cf \<in> set (generateCashFlows fv freq yrs pc bp). principalPayment cf \<noteq> Num fv)) \<and>
     periods (calculateBondPrice
        \<lparr> faceValue = fv, couponRate = cr, ytm = y, years = yrs, frequency = freq \<rparr>) = yrs * freq \<and>
     \<not> is_integer (periods (calculateBondPrice
        \<lparr> faceValue = fv, couponRate = cr, ytm = y, years = yrs, frequency = freq \<rparr>))"
proof -
  let ?f = "periodic_entry fv freq (yrs * freq) pc"
  let ?m = "nat \<lfloor>yrs * freq\<rfloor>"
  have eq: "generateCashFlows fv freq yrs pc bp = purchase_entry bp # map ?f [1..<Suc ?m]"
    by (rule generateCashFlows_eq)
  have "length (generateCashFlows fv freq yrs pc bp) = Suc ?m"
    by (simp add: eq del: upt_Suc)
  moreover from pos have "0 \<le> \<lfloor>yrs * freq\<rfloor>" by simp
  ultimately have len: "int (length (generateCashFlows fv freq yrs pc bp)) = \<lfloor>yrs * freq\<rfloor> + 1"
    by simp
  have entry: "principalPayment (?f k) = Num 0 \<and> period (?f k) = k" for k
    using floor_less_of_fractional [OF frac, of k] by (simp add: periodic_entry_def Let_def)
  have princ: "principalPayment cf = (if period cf = 0 then js_neg bp else Num 0)"
    if "cf \<in> set (generateCashFlows fv freq yrs pc bp)" for cf
  proof -
    from that consider "cf = purchase_entry bp" | k where "1 \<le> k" "cf = ?f k"
      by (auto simp: eq)
    then show ?thesis
    proof cases
      case 1
      then show ?thesis by (simp add: purchase_entry_def)
    next
      case 2
      with entry [of k] show ?thesis by simp
    qed
  qed
  have never: "principalPayment cf \<noteq> Num fv"
    if "fv \<noteq> 0 \<and> bp \<noteq> Num (- fv)" and "cf \<in> set (generateCashFlows fv freq yrs pc bp)" for cf
  proof (cases "period cf = 0")
    case True
    with princ [OF that(2)] have "principalPayment cf = js_neg bp" by simp
    moreover have "js_neg bp \<noteq> Num fv"
      using that(1) by (cases bp) auto
    ultimately show ?thesis by simp
  next
    case False
    with princ [OF that(2)] that(1) show ?thesis by simp
  qed
  have per: "periods (calculateBondPrice
        \<lparr> faceValue = fv, couponRate = cr, ytm = y, years = yrs, frequency = freq \<rparr>) = yrs * freq"
    by (simp add: calculateBondPrice_def Let_def)
  have c2: "\<forall>cf \<in> set (generateCashFlows fv freq yrs pc bp).
        principalPayment cf = (if period cf = 0 then js_neg bp else Num 0)"
    using princ by blast
  have c3: "fv \<noteq> 0 \<and> bp \<noteq> Num (- fv) \<longrightarrow>
        (\<forall>cf \<in> set (generateCashFlows fv freq yrs pc bp). principalPayment cf \<noteq> Num fv)"
    using never by blast
  have c5: "\<not> is_integer (periods (calculateBondPrice
        \<lparr> faceValue = fv, couponRate = cr, ytm = y, years = yrs, frequency = freq \<rparr>))"
    unfolding per by (rule frac)
  show ?thesis
    by (intro conjI; fact)
qed

theorem generateCashFlows_fractional_periods_witness:
  "0 < (3 / 2) * (1::real) \<and> \<not> is_integer ((3 / 2) * 1) \<and>
   generateCashFlows 100 1 (3 / 2) (Num 5) (Num 98) =
     [\<lparr> period = 0, yearLabel = Num 0, couponPayment = Num 0,
        principalPayment = Num (- 98), totalCashFlow = Num (- 98) \<rparr>,
      \<lparr> period = 1, yearLabel = Num 1, couponPayment = Num 5,
        principalPayment = Num 0, totalCashFlow = Num 5 \<rparr>] \<and>
   periods (calculateBondPrice
     \<lparr> faceValue = 100, couponRate = 5, ytm = 5, years = 3 / 2, frequency = 1 \<rparr>) = 3 / 2"
  using generateCashFlows_fractional_periods [of "3 / 2" 1 100 "Num 5" "Num 98" 5 5]
  by (simp add: generateCashFlows_eq purchase_entry_def periodic_entry_def Let_def is_integer_def)

section \<open>The schedule prices to zero\<close>

lemma foldl_js_add_finite:
  "foldl js_add (Num a0) (map (\<lambda>k. Num (g k)) ks) = Num (a0 + (\<Sum>k\<leftarrow>ks. g k))"
  by (induction ks arbitrary: a0) (simp_all add: add.assoc)

lemma present_value_periodic_entry:
  assumes "b \<noteq> 0"
  shows "present_value (Num (b - 1)) (periodic_entry fv freq n (Num c) k) =
     Num ((c + (if real k = n then fv else 0)) / b ^ k)"
  using assms by (simp add: present_value_def periodic_entry_def Let_def js_pow_neg_nat)

lemma present_value_purchase_entry:
  assumes "b \<noteq> 0"
  shows "present_value (Num (b - 1)) (purchase_entry (Num P)) = Num (- P)"
  using js_pow_neg_nat [OF assms, of 0] by (simp add: present_value_def purchase_entry_def)

lemma sum_redemption:
  assumes "1 \<le> n"
  shows "(\<Sum>k = 1..n. (c + (if real k = real n then fv else 0)) / b ^ k) =
     (\<Sum>k = 1..n. c / b ^ k) + fv / (b::real) ^ n"
proof -
  have "(\<Sum>k = 1..n. (c + (if real k = real n then fv else 0)) / b ^ k) =
      (\<Sum>k = 1..n. c / b ^ k + (if k = n then fv / b ^ k else 0))"
    by (rule sum.cong) (simp_all add: add_divide_distrib)
  also have "\<dots> = (\<Sum>k = 1..n. c / b ^ k) + (\<Sum>k = 1..n. if k = n then fv / b ^ k else 0)"
    by (rule sum.distrib)
  also have "(\<Sum>k = 1..n. if k = n then fv / b ^ k else 0) = fv / b ^ n"
    using assms by (simp add: sum.delta)
  finally show ?thesis .
qed

lemma net_present_value_schedule:
  assumes b: "b \<noteq> 0" and n: "1 \<le> n"
  shows "net_present_value (Num (b - 1))
      (purchase_entry (Num P) # map (periodic_entry fv freq (real n) (Num c)) [1..<Suc n]) =
     Num ((\<Sum>k = 1..n. c / b ^ k) + fv / b ^ n - P)"
proof -
  have "map (present_value (Num (b - 1))) (map (periodic_entry fv freq (real n) (Num c)) [1..<Suc n]) =
      map (\<lambda>k. Num ((c + (if real k = real n then fv else 0)) / b ^ k)) [1..<Suc n]"
    by (simp only: map_map o_def present_value_periodic_entry [OF b])
  then have "net_present_value (Num (b - 1))
      (purchase_entry (Num P) # map (periodic_entry fv freq (real n) (Num c)) [1..<Suc n]) =
      foldl js_add (Num (- P))
        (map (\<lambda>k. Num ((c + (if real k = real n then fv else 0)) / b ^ k)) [1..<Suc n])"
    by (simp only: net_present_value_def list.map foldl_Cons present_value_purchase_entry [OF b]
        js_add.simps add_0)
  also have "\<dots> = Num (- P + (\<Sum>k\<leftarrow>[1..<Suc n]. (c + (if real k = real n then fv else 0)) / b ^ k))"
    by (rule foldl_js_add_finite)
  also have "\<dots> = Num (- P + ((\<Sum>k = 1..n. c / b ^ k) + fv / b ^ n))"
    by (simp only: sum_list_upt_interval sum_redemption [OF n])
  finally show ?thesis by (simp add: algebra_simps)
qed

lemma reference_defined_whole_periods:
  assumes "years p * frequency p = real n" and "1 \<le> n" and "1 + reference_periodicYield p \<noteq> 0"
  shows "reference_defined p"
proof -
  from assms(1,2) have "frequency p \<noteq> 0" by auto
  moreover have "is_integer (reference_periods p)"
    by (simp add: reference_periods_def assms(1) is_integer_of_nat)
  ultimately show ?thesis using assms(3) by (simp add: reference_defined_def)
qed

lemma reference_price_whole_periods:
  assumes "years p * frequency p = real n"
  shows "reference_price p =
     (\<Sum>k = 1..n. reference_periodicCoupon p / (1 + reference_periodicYield p) ^ k) +
     faceValue p / (1 + reference_periodicYield p) ^ n"
  by (simp add: reference_price_def reference_pvCoupons_def reference_pvFaceValue_def
      reference_periods_def assms real_pow_def is_integer_of_nat)

lemma calculateBondPrice_whole_periods:
  assumes "years p * frequency p = real n" and "1 \<le> n" and "1 + reference_periodicYield p \<noteq> 0"
  shows "price (calculateBondPrice p) = Num (reference_price p)"
    and "periodicCoupon (calculateBondPrice p) = Num (reference_periodicCoupon p)"
    and "periodicYield (calculateBondPrice p) = Num (reference_periodicYield p)"
proof -
  have d: "reference_defined p"
    using assms by (rule reference_defined_whole_periods)
  then have f: "frequency p \<noteq> 0" and b: "1 + reference_periodicYield p \<noteq> 0"
    by (simp_all add: reference_defined_def)
  have "price (calculateBondPrice p) =
     js_add (pvCoupons (calculateBondPrice p)) (pvFaceValue (calculateBondPrice p))"
    by (simp add: calculateBondPrice_def Let_def)
  then show "price (calculateBondPrice p) = Num (reference_price p)"
    by (simp add: pvCoupons_finite [OF f b] pvFaceValue_finite [OF d] reference_price_def)
  show "periodicCoupon (calculateBondPrice p) = Num (reference_periodicCoupon p)"
    using f by (rule periodicCoupon_finite)
  show "periodicYield (calculateBondPrice p) = Num (reference_periodicYield p)"
    using f by (rule periodicYield_finite)
qed

lemma periods_of_schedule:
  "map period (purchase_entry bp # map (periodic_entry fv freq m pc) [1..<Suc n]) = [0..<Suc n]"
proof -
  have "map period (map (periodic_entry fv freq m pc) [1..<Suc n]) = map (\<lambda>k. k) [1..<Suc n]"
    by (simp only: map_map o_def) (simp add: periodic_entry_def Let_def)
  then have "map period (purchase_entry bp # map (periodic_entry fv freq m pc) [1..<Suc n]) =
      0 # [1..<Suc n]"
    by (simp add: purchase_entry_def del: upt_Suc)
  also have "\<dots> = [0..<Suc n]"
    by (simp add: upt_rec [of 0] del: upt_Suc)
  finally show ?thesis .
qed

text \<open>
  C2, as amended: for parameters with years \<times> frequency a positive integer \<open>n\<close> and
  periodicYield > -1, the schedule that \<open>generateCashFlows\<close> builds from the periodic
  coupon and the price computed by \<open>calculateBondPrice\<close> has the \<open>n + 1\<close> entries of the
  periods 0 to \<open>n\<close>, and its net present value at the periodic yield is zero: the sum over
  the entries \<open>k = 0..n\<close> of totalCashFlow \<times> (1 + periodicYield)^(- k) is 0, in exact
  arithmetic.
\<close>

theorem schedule_net_present_value_zero:
  assumes n: "years p * frequency p = real n" and pos: "1 \<le> n"
    and y: "- 1 < reference_periodicYield p"
  shows "length (generateCashFlows (faceValue p) (frequency p) (years p)
          (periodicCoupon (calculateBondPrice p)) (price (calculateBondPrice p))) = n + 1 \<and>
     map period (generateCashFlows (faceValue p) (frequency p) (years p)
          (periodicCoupon (calculateBondPrice p)) (price (calculateBondPrice p))) = [0..<Suc n] \<and>
     periodicYield (calculateBondPrice p) = Num (reference_periodicYield p) \<and>
     net_present_value (periodicYield (calculateBondPrice p))
       (generateCashFlows (faceValue p) (frequency p) (years p)
          (periodicCoupon (calculateBondPrice p)) (price (calculateBondPrice p))) = Num 0"
proof -
  let ?b = "1 + reference_periodicYield p"
  let ?cfs = "generateCashFlows (faceValue p) (frequency p) (years p)
          (periodicCoupon (calculateBondPrice p)) (price (calculateBondPrice p))"
  from y have b: "?b \<noteq> 0" by simp
  note fin = calculateBondPrice_whole_periods [OF n pos b]
  have eq: "?cfs = purchase_entry (Num (reference_price p)) #
       map (periodic_entry (faceValue p) (frequency p) (real n) (Num (reference_periodicCoupon p)))
         [1..<Suc n]"
    by (simp only: generateCashFlows_eq n nat_floor_of_nat fin)
  have len: "length ?cfs = n + 1"
    by (simp only: eq) simp
  have per: "map period ?cfs = [0..<Suc n]"
    by (simp only: eq periods_of_schedule)
  have "net_present_value (Num (?b - 1))
      (purchase_entry (Num (reference_price p)) #
       map (periodic_entry (faceValue p) (frequency p) (real n) (Num (reference_periodicCoupon p)))
         [1..<Suc n]) =
     Num ((\<Sum>k = 1..n. reference_periodicCoupon p / ?b ^ k) + faceValue p / ?b ^ n
          - reference_price p)"
    using b pos by (rule net_present_value_schedule)
  then have "net_present_value (periodicYield (calculateBondPrice p)) ?cfs =
     Num ((\<Sum>k = 1..n. reference_periodicCoupon p / ?b ^ k) + faceValue p / ?b ^ n
          - reference_price p)"
    by (simp add: fin generateCashFlows_eq n)
  then have npv: "net_present_value (periodicYield (calculateBondPrice p)) ?cfs = Num 0"
    by (simp add: reference_price_whole_periods [OF n])
  from len per fin(3) npv show ?thesis
    by (intro conjI)
qed

theorem schedule_net_present_value_zero_witness:
  "BondParameters.years \<lparr> faceValue = 100, couponRate = 10, ytm = 100, years = 2, frequency = 1 \<rparr> *
     BondParameters.frequency \<lparr> faceValue = 100, couponRate = 10, ytm = 100, years = 2, frequency = 1 \<rparr> = real 2 \<and>
   1 \<le> (2::nat) \<and>
   - 1 < reference_periodicYield \<lparr> faceValue = 100, couponRate = 10, ytm = 100, years = 2, frequency = 1 \<rparr> \<and>
   length (generateCashFlows 100 1 2 (Num 10) (Num (65 / 2))) = 3 \<and>
   net_present_value (Num 1) (generateCashFlows 100 1 2 (Num 10) (Num (65 / 2))) = Num 0"
  using schedule_net_present_value_zero
    [of "\<lparr> faceValue = 100, couponRate = 10, ytm = 100, years = 2, frequency = 1 \<rparr>" 2]
    calculateBondPrice_whole_periods
    [of "\<lparr> faceValue = 100, couponRate = 10, ytm = 100, years = 2, frequency = 1 \<rparr>" 2]
  by (simp add: reference_periodicYield_def reference_periodicCoupon_def
      reference_price_whole_periods [of _ 2] numeral_2_eq_2)

text \<open>
  Without a whole number of periods the schedule does not price to zero.  At
  faceValue = 100, couponRate = 5, ytm = 1, years = 1/2 and frequency = 1 the periodic
  yield is 0.01, the loops run no round, the price is the discounted face value
  100 / 1.01^(1/2), and the schedule is the purchase entry alone: its net present value
  is minus the price.
\<close>

lemma calculateBondPrice_half_period:
  "price (calculateBondPrice
     \<lparr> faceValue = 100, couponRate = 5, ytm = 1, years = 1 / 2, frequency = 1 \<rparr>) =
   Num (100 / (101 / 100) powr (1 / 2))"
  by (simp add: calculateBondPrice_def Let_def pvCoupons_loop_foldl js_pow.simps
      real_pow_def is_integer_def)

lemma half_period_discount: "(1::real) < (101 / 100) powr (1 / 2)"
proof -
  have "(101 / 100 :: real) powr 0 < (101 / 100) powr (1 / 2)"
    by (rule powr_less_mono) simp_all
  then show ?thesis by simp
qed

theorem schedule_net_present_value_counterexample:
  "(0::real) < 1 / 2 \<and>
   periodicYield (calculateBondPrice
     \<lparr> faceValue = 100, couponRate = 5, ytm = 1, years = 1 / 2, frequency = 1 \<rparr>) = Num (1 / 100) \<and>
   generateCashFlows 100 1 (1 / 2) (Num 5) (Num (100 / (101 / 100) powr (1 / 2))) =
     [\<lparr> period = 0, yearLabel = Num 0, couponPayment = Num 0,
        principalPayment = Num (- (100 / (101 / 100) powr (1 / 2))),
        totalCashFlow = Num (- (100 / (101 / 100) powr (1 / 2))) \<rparr>] \<and>
   net_present_value
     (periodicYield (calculateBondPrice
        \<lparr> faceValue = 100, couponRate = 5, ytm = 1, years = 1 / 2, frequency = 1 \<rparr>))
     (generateCashFlows 100 1 (1 / 2)
        (periodicCoupon (calculateBondPrice
           \<lparr> faceValue = 100, couponRate = 5, ytm = 1, years = 1 / 2, frequency = 1 \<rparr>))
        (price (calculateBondPrice
           \<lparr> faceValue = 100, couponRate = 5, ytm = 1, years = 1 / 2, frequency = 1 \<rparr>))) =
     Num (- (100 / (101 / 100) powr (1 / 2))) \<and>
   Num (- (100 / (101 / 100) powr (1 / 2))) \<noteq> Num 0"
proof -
  have y: "periodicYield (calculateBondPrice
     \<lparr> faceValue = 100, couponRate = 5, ytm = 1, years = 1 / 2, frequency = 1 \<rparr>) = Num (1 / 100)"
    by (simp add: calculateBondPrice_def Let_def)
  have c: "periodicCoupon (calculateBondPrice
     \<lparr> faceValue = 100, couponRate = 5, ytm = 1, years = 1 / 2, frequency = 1 \<rparr>) = Num 5"
    by (simp add: calculateBondPrice_def Let_def)
  have s: "generateCashFlows 100 1 (1 / 2) (Num 5) (Num (100 / (101 / 100) powr (1 / 2))) =
     [\<lparr> period = 0, yearLabel = Num 0, couponPayment = Num 0,
        principalPayment = Num (- (100 / (101 / 100) powr (1 / 2))),
        totalCashFlow = Num (- (100 / (101 / 100) powr (1 / 2))) \<rparr>]"
    by (simp add: generateCashFlows_eq purchase_entry_def)
  have v: "net_present_value (Num (1 / 100))
     [\<lparr> period = 0, yearLabel = Num 0, couponPayment = Num 0,
        principalPayment = Num (- (100 / (101 / 100) powr (1 / 2))),
        totalCashFlow = Num (- (100 / (101 / 100) powr (1 / 2))) \<rparr>] =
     Num (- (100 / (101 / 100) powr (1 / 2)))"
    by (simp add: net_present_value_def present_value_def js_pow.simps)
  have nz: "Num (- (100 / (101 / 100) powr (1 / 2))) \<noteq> Num 0"
    by simp
  show ?thesis
    by (simp only: y c calculateBondPrice_half_period s v nz) simp
qed

section \<open>Price against face value\<close>

lemma geometric_discount_sum:
  fixes b :: real
  assumes "b \<noteq> 0"
  shows "(b - 1) * (\<Sum>k = 1..n. 1 / b ^ k) = 1 - 1 / b ^ n"
proof (induction n)
  case 0
  show ?case by simp
next
  case (Suc n)
  have "(b - 1) * (\<Sum>k = 1..Suc n. 1 / b ^ k) =
      (b - 1) * (\<Sum>k = 1..n. 1 / b ^ k) + (b - 1) * (1 / b ^ Suc n)"
    by (simp add: distrib_left)
  also have "\<dots> = 1 - 1 / b ^ n + (b - 1) * (1 / b ^ Suc n)"
    by (simp only: Suc.IH)
  also have "\<dots> = 1 - 1 / b ^ Suc n"
    using assms by (simp add: field_simps)
  finally show ?case .
qed

lemma reference_price_minus_face:
  assumes n: "years p * frequency p = real n"
    and f: "frequency p \<noteq> 0" and b: "1 + reference_periodicYield p \<noteq> 0"
  shows "reference_price p - faceValue p =
     faceValue p * ((couponRate p - ytm p) / 100 / frequency p) *
       (\<Sum>k = 1..n. 1 / (1 + reference_periodicYield p) ^ k)"
proof -
  let ?b = "1 + reference_periodicYield p"
  let ?S = "\<Sum>k = 1..n. 1 / ?b ^ k"
  have "(\<Sum>k = 1..n. reference_periodicCoupon p / ?b ^ k) = reference_periodicCoupon p * ?S"
    by (simp add: sum_distrib_left)
  moreover have "1 / ?b ^ n = 1 - reference_periodicYield p * ?S"
    using geometric_discount_sum [OF b, of n] by simp
  then have "faceValue p / ?b ^ n = faceValue p * (1 - reference_periodicYield p * ?S)"
    by (metis times_divide_eq_right mult.right_neutral)
  ultimately have "reference_price p - faceValue p =
      reference_periodicCoupon p * ?S - faceValue p * reference_periodicYield p * ?S"
    by (simp add: reference_price_whole_periods [OF n] algebra_simps)
  also have "\<dots> = faceValue p * ((couponRate p - ytm p) / 100 / frequency p) * ?S"
    by (simp add: reference_periodicCoupon_def reference_periodicYield_def algebra_simps
        diff_divide_distrib)
  finally show ?thesis .
qed

lemma discount_sum_pos:
  fixes b :: real
  assumes "0 < b" and "1 \<le> n"
  shows "0 < (\<Sum>k = 1..n. 1 / b ^ k)"
  using assms by (intro sum_pos) simp_all

text \<open>
  C6, as amended: for faceValue > 0, couponRate \<ge> 0, years > 0 and frequency one of 1, 2,
  4 and 12, with years \<times> frequency an integer and ytm > -100 \<times> frequency (a periodic yield
  above -1), the price computed by \<open>calculateBondPrice\<close> is above faceValue when
  couponRate > ytm, below faceValue when couponRate < ytm, and approximately equal to
  faceValue when ytm = couponRate: within the tolerance \<open>tol\<close>, for any \<open>tol\<close> > 0.
\<close>

theorem price_against_face_value:
  assumes fv: "0 < faceValue p" and cr: "0 \<le> couponRate p" and yrs: "0 < years p"
    and freq: "frequency p \<in> {1, 2, 4, 12}"
    and n: "years p * frequency p = real n"
    and y: "- 100 * frequency p < ytm p"
  shows "(ytm p < couponRate p \<longrightarrow> js_gt (price (calculateBondPrice p)) (Num (faceValue p))) \<and>
     (couponRate p < ytm p \<longrightarrow> js_lt (price (calculateBondPrice p)) (Num (faceValue p))) \<and>
     (ytm p = couponRate p \<and> 0 < tol \<longrightarrow>
        js_lt (js_abs (js_sub (price (calculateBondPrice p)) (Num (faceValue p)))) (Num tol))"
proof -
  let ?b = "1 + reference_periodicYield p"
  let ?S = "\<Sum>k = 1..n. 1 / ?b ^ k"
  from freq have f: "0 < frequency p" by auto
  with yrs n have "0 < real n" by (metis mult_pos_pos)
  then have pos: "1 \<le> n" by simp
  from y f have "- 1 < reference_periodicYield p"
    by (simp add: reference_periodicYield_def field_simps)
  then have b: "0 < ?b" by simp
  then have b0: "?b \<noteq> 0" by simp
  from f have f0: "frequency p \<noteq> 0" by simp
  have pr: "price (calculateBondPrice p) = Num (reference_price p)"
    using n pos b0 by (rule calculateBondPrice_whole_periods)
  have S: "0 < ?S"
    using b pos by (rule discount_sum_pos)
  have diff: "reference_price p - faceValue p =
      faceValue p * ((couponRate p - ytm p) / 100 / frequency p) * ?S"
    using n f0 b0 by (rule reference_price_minus_face)
  have above: "faceValue p < reference_price p" if "ytm p < couponRate p"
  proof -
    from that f have "0 < (couponRate p - ytm p) / 100 / frequency p" by simp
    with fv S have "0 < faceValue p * ((couponRate p - ytm p) / 100 / frequency p) * ?S"
      by (intro mult_pos_pos)
    with diff show ?thesis by simp
  qed
  have below: "reference_price p < faceValue p" if "couponRate p < ytm p"
  proof -
    from that f have "0 < (ytm p - couponRate p) / 100 / frequency p" by simp
    with fv S have "0 < faceValue p * ((ytm p - couponRate p) / 100 / frequency p) * ?S"
      by (intro mult_pos_pos)
    moreover have "faceValue p * ((ytm p - couponRate p) / 100 / frequency p) * ?S =
        - (faceValue p * ((couponRate p - ytm p) / 100 / frequency p) * ?S)"
      by (simp add: algebra_simps diff_divide_distrib)
    ultimately show ?thesis using diff by simp
  qed
  have near: "\<bar>reference_price p - faceValue p\<bar> < tol" if "ytm p = couponRate p \<and> 0 < tol"
    using diff that by simp
  from above below near show ?thesis
    by (simp add: pr js_gt_def js_sub_def)
qed

theorem price_against_face_value_witness:
  "js_gt (price (calculateBondPrice
     \<lparr> faceValue = 100, couponRate = 8, ytm = 6, years = 5, frequency = 2 \<rparr>)) (Num 100) \<and>
   js_lt (price (calculateBondPrice
     \<lparr> faceValue = 100, couponRate = 4, ytm = 6, years = 5, frequency = 2 \<rparr>)) (Num 100) \<and>
   js_lt (js_abs (js_sub (price (calculateBondPrice
     \<lparr> faceValue = 100, couponRate = 6, ytm = 6, years = 5, frequency = 2 \<rparr>)) (Num 100)))
     (Num (2 / 10))"
  using price_against_face_value
    [of "\<lparr> faceValue = 100, couponRate = 8, ytm = 6, years = 5, frequency = 2 \<rparr>" 10]
    price_against_face_value
    [of "\<lparr> faceValue = 100, couponRate = 4, ytm = 6, years = 5, frequency = 2 \<rparr>" 10]
    price_against_face_value
    [of "\<lparr> faceValue = 100, couponRate = 6, ytm = 6, years = 5, frequency = 2 \<rparr>" 10 "2 / 10"]
  by simp

text \<open>
  Without the two added conditions the comparison fails: a term of half a period pays no
  coupon and is priced below face value although the coupon rate is above the yield, and
  so is a whole period discounted at a periodic yield of -3.
\<close>

lemma calculateBondPrice_negative_base:
  "price (calculateBondPrice
     \<lparr> faceValue = 100, couponRate = 5, ytm = - 300, years = 1, frequency = 1 \<rparr>) =
   Num (- (105 / 2))"
  by (simp add: calculateBondPrice_def Let_def pvCoupons_loop_foldl js_pow.simps
      real_pow_def is_integer_def)

theorem price_against_face_value_counterexample:
  "(1::real) < 5 \<and>
   \<not> js_gt (price (calculateBondPrice
      \<lparr> faceValue = 100, couponRate = 5, ytm = 1, years = 1 / 2, frequency = 1 \<rparr>)) (Num 100) \<and>
   js_lt (price (calculateBondPrice
      \<lparr> faceValue = 100, couponRate = 5, ytm = 1, years = 1 / 2, frequency = 1 \<rparr>)) (Num 100) \<and>
   (- 300 :: real) < 5 \<and>
   \<not> js_gt (price (calculateBondPrice
      \<lparr> faceValue = 100, couponRate = 5, ytm = - 300, years = 1, frequency = 1 \<rparr>)) (Num 100) \<and>
   price (calculateBondPrice
      \<lparr> faceValue = 100, couponRate = 5, ytm = - 300, years = 1, frequency = 1 \<rparr>) =
     Num (- (105 / 2))"
proof -
  have "100 / (101 / 100) powr (1 / 2) < (100::real)"
    using half_period_discount by (simp add: field_simps)
  then show ?thesis
    by (simp add: calculateBondPrice_half_period calculateBondPrice_negative_base js_gt_def)
qed

section \<open>Classification\<close>

lemma analyzeBondType_default:
  "analyzeBondType bp fv None = analyzeBondType bp fv (Some (Num (1 / 100)))"
  by (simp add: analyzeBondType_def)

text \<open>
  The test \<open>difference > 0\<close> of the source is the comparison of the two arguments, and
  where it fails \<open>Math.abs(difference)\<close> is faceValue - bondPrice, on the special values
  too.
\<close>

lemma difference_positive_iff: "js_gt (js_sub bp fv) (Num 0) = js_gt bp fv"
  by (cases bp; cases fv) (simp_all add: js_sub_def js_gt_def)

lemma abs_difference_flip:
  "\<not> js_gt bp fv \<Longrightarrow> js_abs (js_sub bp fv) = js_sub fv bp"
  by (cases bp; cases fv) (simp_all add: js_sub_def js_gt_def)

lemma js_abs_not_negative: "\<not> js_lt (js_abs x) (Num 0)"
  by (cases x) simp_all

lemma positive_not_negative: "js_gt x (Num 0) \<Longrightarrow> \<not> js_lt x (Num 0)"
  by (cases x) (simp_all add: js_gt_def)

lemma analyzeBondType_cases:
  "analyzeBondType bp fv (Some tol) =
     (if js_lt (js_abs (js_sub bp fv)) tol
      then \<lparr> type = par, description = ''Par bond'', difference = Num 0 \<rparr>
      else if js_gt bp fv
      then \<lparr> type = premium, description = ''Premium bond'', difference = js_sub bp fv \<rparr>
      else \<lparr> type = discount, description = ''Discount bond'', difference = js_sub fv bp \<rparr>)"
  by (simp add: analyzeBondType_def Let_def difference_positive_iff abs_difference_flip)

lemma analyzeBondType_finite:
  "analyzeBondType (Num bp) (Num fv) (Some (Num tol)) =
     (if \<bar>bp - fv\<bar> < tol
      then \<lparr> type = par, description = ''Par bond'', difference = Num 0 \<rparr>
      else if fv < bp
      then \<lparr> type = premium, description = ''Premium bond'', difference = Num (bp - fv) \<rparr>
      else \<lparr> type = discount, description = ''Discount bond'', difference = Num (fv - bp) \<rparr>)"
  by (simp add: analyzeBondType_def Let_def js_sub_def js_gt_def)

lemma analyzeBondType_not_negative:
  "\<not> js_lt (difference (analyzeBondType bp fv tolerance_arg)) (Num 0)"
  by (simp add: analyzeBondType_def Let_def js_abs_not_negative positive_not_negative)

lemma analyzeBondType_finite_difference:
  "\<exists>d. difference (analyzeBondType (Num a) (Num b) tolerance_arg) = Num d \<and> 0 \<le> d"
  by (simp add: analyzeBondType_def Let_def js_sub_def js_gt_def)

text \<open>
  C5: for every bondPrice, faceValue and tolerance, the special values of the number
  type included, \<open>analyzeBondType\<close> returns par with difference 0 when
  |bondPrice - faceValue| < tolerance, otherwise premium with difference bondPrice -
  faceValue when bondPrice > faceValue, otherwise discount with difference faceValue -
  bondPrice; a call without tolerance is the call with tolerance 0.01.  The difference is
  never below zero, and on finite arguments it is a number that is at least 0.
  analyzeBondType(100, 100) and analyzeBondType(100.005, 100, 0.01) are par with
  difference 0, analyzeBondType(105, 100) is premium with difference 5 and
  analyzeBondType(95, 100) is discount with difference 5.
\<close>

theorem analyzeBondType_rule:
  "analyzeBondType bp fv (Some tol) =
     (if js_lt (js_abs (js_sub bp fv)) tol
      then \<lparr> type = par, description = ''Par bond'', difference = Num 0 \<rparr>
      else if js_gt bp fv
      then \<lparr> type = premium, description = ''Premium bond'', difference = js_sub bp fv \<rparr>
      else \<lparr> type = discount, description = ''Discount bond'', difference = js_sub fv bp \<rparr>) \<and>
   analyzeBondType bp fv None = analyzeBondType bp fv (Some (Num (1 / 100))) \<and>
   \<not> js_lt (difference (analyzeBondType bp fv tolerance_arg)) (Num 0) \<and>
   (\<exists>d. difference (analyzeBondType (Num a) (Num b) tolerance_arg) = Num d \<and> 0 \<le> d) \<and>
   analyzeBondType (Num 100) (Num 100) None =
     \<lparr> type = par, description = ''Par bond'', difference = Num 0 \<rparr> \<and>
   analyzeBondType (Num (100005 / 1000)) (Num 100) (Some (Num (1 / 100))) =
     \<lparr> type = par, description = ''Par bond'', difference = Num 0 \<rparr> \<and>
   analyzeBondType (Num 105) (Num 100) None =
     \<lparr> type = premium, description = ''Premium bond'', difference = Num 5 \<rparr> \<and>
   analyzeBondType (Num 95) (Num 100) None =
     \<lparr> type = discount, description = ''Discount bond'', difference = Num 5 \<rparr>"
proof (intro conjI)
  show "analyzeBondType bp fv (Some tol) =
     (if js_lt (js_abs (js_sub bp fv)) tol
      then \<lparr> type = par, description = ''Par bond'', difference = Num 0 \<rparr>
      else if js_gt bp fv
      then \<lparr> type = premium, description = ''Premium bond'', difference = js_sub bp fv \<rparr>
      else \<lparr> type = discount, description = ''Discount bond'', difference = js_sub fv bp \<rparr>)"
    by (rule analyzeBondType_cases)
  show "analyzeBondType bp fv None = analyzeBondType bp fv (Some (Num (1 / 100)))"
    by (rule analyzeBondType_default)
  show "\<not> js_lt (difference (analyzeBondType bp fv tolerance_arg)) (Num 0)"
    by (rule analyzeBondType_not_negative)
  show "\<exists>d. difference (analyzeBondType (Num a) (Num b) tolerance_arg) = Num d \<and> 0 \<le> d"
    by (rule analyzeBondType_finite_difference)
qed (simp_all add: analyzeBondType_default analyzeBondType_cases js_sub_def js_gt_def)

theorem analyzeBondType_rule_witness:
  "analyzeBondType (Num 104) (Num 100) (Some (Num 2)) =
     \<lparr> type = premium, description = ''Premium bond'', difference = Num 4 \<rparr> \<and>
   analyzeBondType (Num 101) (Num 100) (Some (Num 2)) =
     \<lparr> type = par, description = ''Par bond'', difference = Num 0 \<rparr> \<and>
   analyzeBondType (Num 90) (Num 100) (Some (Num 2)) =
     \<lparr> type = discount, description = ''Discount bond'', difference = Num 10 \<rparr> \<and>
   analyzeBondType PosInf (Num 100) (Some (Num 2)) =
     \<lparr> type = premium, description = ''Premium bond'', difference = PosInf \<rparr> \<and>
   analyzeBondType NaN (Num 100) (Some (Num 2)) =
     \<lparr> type = discount, description = ''Discount bond'', difference = NaN \<rparr>"
  using analyzeBondType_rule [of "Num 104" "Num 100" "Num 2"]
    analyzeBondType_rule [of "Num 101" "Num 100" "Num 2"]
    analyzeBondType_rule [of "Num 90" "Num 100" "Num 2"]
    analyzeBondType_rule [of PosInf "Num 100" "Num 2"]
    analyzeBondType_rule [of NaN "Num 100" "Num 2"]
  by (simp add: js_sub_def js_gt_def)

text \<open>
  C10: the classification inside every result of \<open>calculateBondMetrics\<close> is computed
  with the default tolerance 0.01: \<open>calculateBondMetrics\<close> calls \<open>analyzeBondType\<close> with
  two arguments, and its parameters carry no tolerance.  A price 0.02 above face value is
  therefore reported as premium, where the classifier called with a tolerance of 0.05
  answers par.
\<close>

theorem calculateBondMetrics_default_tolerance:
  "bondType (calculateBondMetrics p) =
     analyzeBondType (bondPrice (calculateBondMetrics p)) (Num (faceValue p)) None \<and>
   bondType (calculateBondMetrics p) =
     analyzeBondType (bondPrice (calculateBondMetrics p)) (Num (faceValue p))
       (Some (Num (1 / 100))) \<and>
   bondPrice (calculateBondMetrics
     \<lparr> faceValue = 100, couponRate = 2 / 100, ytm = 0, years = 1, frequency = 1 \<rparr>) =
     Num (10002 / 100) \<and>
   type (bondType (calculateBondMetrics
     \<lparr> faceValue = 100, couponRate = 2 / 100, ytm = 0, years = 1, frequency = 1 \<rparr>)) = premium \<and>
   type (analyzeBondType (Num (10002 / 100)) (Num 100) (Some (Num (5 / 100)))) = par"
proof -
  have "price (calculateBondPrice
     \<lparr> faceValue = 100, couponRate = 2 / 100, ytm = 0, years = 1, frequency = 1 \<rparr>) =
     Num (10002 / 100)"
    by (simp add: calculateBondPrice_def Let_def pvCoupons_loop_foldl js_pow.simps
        real_pow_def is_integer_def)
  then show ?thesis
    by (simp add: calculateBondMetrics_def Let_def analyzeBondType_default
        analyzeBondType_finite)
qed

section \<open>Division by zero\<close>

lemma js_add_PosInf_not_finite: "js_add x PosInf = PosInf \<or> js_add x PosInf = NaN"
  by (cases x) simp_all

lemma pvFaceValue_zero_base:
  assumes "0 < faceValue p" and "frequency p \<noteq> 0" and "ytm p / 100 / frequency p = - 1"
    and "0 < years p * frequency p"
  shows "pvFaceValue (calculateBondPrice p) = PosInf"
  using assms by (auto simp: calculateBondPrice_def Let_def js_pow.simps)

lemma price_zero_base:
  assumes "0 < faceValue p" and "frequency p \<noteq> 0" and "ytm p / 100 / frequency p = - 1"
    and "0 < years p * frequency p"
  shows "price (calculateBondPrice p) = PosInf \<or> price (calculateBondPrice p) = NaN"
proof -
  have "price (calculateBondPrice p) =
      js_add (pvCoupons (calculateBondPrice p)) (pvFaceValue (calculateBondPrice p))"
    by (simp add: calculateBondPrice_def Let_def)
  then show ?thesis
    by (simp only: pvFaceValue_zero_base [OF assms] js_add_PosInf_not_finite)
qed

text \<open>
  C4, as amended: for every finite input \<open>calculateBondMetrics\<close> raises no error and
  returns a complete result, also when periodicYield = ytm/100/frequency is exactly -1.
  There (with faceValue > 0 and years \<times> frequency > 0) the division by zero is not
  signalled: the periodic yield returned is -1, pvFaceValue is +Infinity, and the price
  and the bondPrice of the result are +Infinity or NaN.
\<close>

theorem calculateBondMetrics_raises_nothing:
  "calculateBondMetrics_call p = Inr (calculateBondMetrics p) \<and>
   (0 < faceValue p \<and> frequency p \<noteq> 0 \<and> ytm p / 100 / frequency p = - 1 \<and>
    0 < years p * frequency p \<longrightarrow>
      periodicYield (calculateBondPrice p) = Num (- 1) \<and>
      pvFaceValue (calculateBondPrice p) = PosInf \<and>
      (price (calculateBondPrice p) = PosInf \<or> price (calculateBondPrice p) = NaN) \<and>
      bondPrice (calculateBondMetrics p) = price (calculateBondPrice p) \<and>
      ValuationResult.pvFaceValue (calculateBondMetrics p) = PosInf)"
proof (intro conjI impI)
  show "calculateBondMetrics_call p = Inr (calculateBondMetrics p)"
    by (simp add: calculateBondMetrics_call_def)
next
  assume a: "0 < faceValue p \<and> frequency p \<noteq> 0 \<and> ytm p / 100 / frequency p = - 1 \<and>
    0 < years p * frequency p"
  then have fv: "0 < faceValue p" and f: "frequency p \<noteq> 0"
    and y: "ytm p / 100 / frequency p = - 1" and n: "0 < years p * frequency p"
    by simp_all
  show "periodicYield (calculateBondPrice p) = Num (- 1)"
    using f y by (simp add: calculateBondPrice_def Let_def)
  show "pvFaceValue (calculateBondPrice p) = PosInf"
    using fv f y n by (rule pvFaceValue_zero_base)
  show "price (calculateBondPrice p) = PosInf \<or> price (calculateBondPrice p) = NaN"
    using fv f y n by (rule price_zero_base)
  show "bondPrice (calculateBondMetrics p) = price (calculateBondPrice p)"
    by (simp add: calculateBondMetrics_def Let_def)
  show "ValuationResult.pvFaceValue (calculateBondMetrics p) = PosInf"
    using pvFaceValue_zero_base [OF fv f y n] by (simp add: calculateBondMetrics_def Let_def)
qed

theorem calculateBondMetrics_raises_nothing_witness:
  "calculateBondMetrics_call
     \<lparr> faceValue = 100, couponRate = 0, ytm = - 200, years = 3, frequency = 2 \<rparr> =
   Inr (calculateBondMetrics
     \<lparr> faceValue = 100, couponRate = 0, ytm = - 200, years = 3, frequency = 2 \<rparr>) \<and>
   ValuationResult.pvFaceValue (calculateBondMetrics
     \<lparr> faceValue = 100, couponRate = 0, ytm = - 200, years = 3, frequency = 2 \<rparr>) = PosInf"
  using calculateBondMetrics_raises_nothing
    [of "\<lparr> faceValue = 100, couponRate = 0, ytm = - 200, years = 3, frequency = 2 \<rparr>"]
  by simp

text \<open>
  The claim as written fails at faceValue = 100, couponRate = 5, ytm = -100, years = 1,
  frequency = 1: the periodic yield is exactly -1, and the call returns a whole result
  with an infinite price instead of raising.
\<close>

theorem domain_error_counterexample:
  "calculateBondPrice
     \<lparr> faceValue = 100, couponRate = 5, ytm = - 100, years = 1, frequency = 1 \<rparr> =
     \<lparr> price = PosInf, pvCoupons = PosInf, pvFaceValue = PosInf,
       periodicCoupon = Num 5, periodicYield = Num (- 1), periods = 1 \<rparr> \<and>
   calculateBondMetrics_call
     \<lparr> faceValue = 100, couponRate = 5, ytm = - 100, years = 1, frequency = 1 \<rparr> =
     Inr \<lparr> bondPrice = PosInf, pvCoupons = PosInf, pvFaceValue = PosInf,
           periodicCoupon = Num 5, periodicYield = Num (- 1), periods = 1,
           cashFlows =
             [\<lparr> period = 0, yearLabel = Num 0, couponPayment = Num 0,
                principalPayment = NegInf, totalCashFlow = NegInf \<rparr>,
              \<lparr> period = 1, yearLabel = Num 1, couponPayment = Num 5,
                principalPayment = Num 100, totalCashFlow = Num 105 \<rparr>],
           bondType = \<lparr> type = premium, description = ''Premium bond'',
                        difference = PosInf \<rparr> \<rparr> \<and>
   calculateBondMetrics_call
     \<lparr> faceValue = 100, couponRate = 5, ytm = - 100, years = 1, frequency = 1 \<rparr> \<noteq>
     Inl DomainError"
proof -
  have pr: "calculateBondPrice
     \<lparr> faceValue = 100, couponRate = 5, ytm = - 100, years = 1, frequency = 1 \<rparr> =
     \<lparr> price = PosInf, pvCoupons = PosInf, pvFaceValue = PosInf,
       periodicCoupon = Num 5, periodicYield = Num (- 1), periods = 1 \<rparr>"
    by (simp add: calculateBondPrice_def Let_def pvCoupons_loop_foldl js_pow.simps)
  show ?thesis
    by (simp add: pr calculateBondMetrics_call_def calculateBondMetrics_def Let_def
        generateCashFlows_eq purchase_entry_def periodic_entry_def
        analyzeBondType_def js_sub_def js_gt_def)
qed

section \<open>The state store\<close>

lemma updateCalculations_no_errors:
  "\<not> hasErrors (errors (fst w)) \<Longrightarrow>
   updateCalculations w =
     setState [SetBondCalculations (Some (calculateBondMetrics (state_parameters (fst w))))] w"
  by (simp add: updateCalculations_def Let_def calculateBondMetrics_call_def state_parameters_def)

lemma updateCalculations_errors:
  "hasErrors (errors (fst w)) \<Longrightarrow>
   updateCalculations w = setState [SetBondCalculations None] w"
  by (simp add: updateCalculations_def Let_def)

lemma setState_eq:
  "setState updates (s, calls) =
     (object_assign s updates,
      calls @ map (\<lambda>fn. (fn, object_assign s updates)) (listeners (object_assign s updates)))"
  by (simp add: setState_def Let_def)

lemma init_initial_state:
  "init (initial_state, []) = (started_state, [(''handleStateChange'', started_state)])"
  by (simp add: init_def subscribe_def updateCalculations_no_errors hasErrors_def
      initial_state_def setState_eq object_assign_def state_parameters_def started_state_def
      default_parameters_def)

lemma object_assign_field_errors:
  "errors (object_assign s [SetField fld v, SetErrors es]) = es"
  "bondCalculations (object_assign s [SetField fld v, SetErrors es]) = bondCalculations s"
  "listeners (object_assign s [SetField fld v, SetErrors es]) = listeners s"
  by (cases fld; simp add: object_assign_def)+

lemma update_not_empty: "AList.update k v al \<noteq> []"
  by (cases al) simp_all

text \<open>
  An input that the validator rejects is stored with its error, and the stored result is
  the one from before.
\<close>

lemma debouncedUpdate_invalid:
  assumes "validate fld v = Some msg"
  shows "hasErrors (errors (fst (debouncedUpdate validate fld v w))) \<and>
     bondCalculations (fst (debouncedUpdate validate fld v w)) = bondCalculations (fst w)"
  using assms
  by (simp add: debouncedUpdate_def Let_def hasErrors_def update_not_empty setState_def
      object_assign_field_errors)

text \<open>
  C7: the claim asks that the stored result be absent whenever a validation error is
  active.  Entering the coupon rate -5 after the start leaves the error active and the
  result computed from the previous inputs in place: the callback calls
  \<open>updateCalculations\<close> only when there is no error, so the branch of
  \<open>updateCalculations\<close> that clears the result is not reached.  Calling
  \<open>updateCalculations\<close> in that state would clear it.
\<close>

theorem stale_result_after_validation_error:
  "hasErrors (errors (fst (debouncedUpdate validateField CouponRate (- 5)
      (init (initial_state, []))))) \<and>
   app_state.couponRate (fst (debouncedUpdate validateField CouponRate (- 5)
      (init (initial_state, [])))) = - 5 \<and>
   bondCalculations (fst (debouncedUpdate validateField CouponRate (- 5)
      (init (initial_state, [])))) = Some (calculateBondMetrics default_parameters) \<and>
   bondCalculations (fst (updateCalculations (debouncedUpdate validateField CouponRate (- 5)
      (init (initial_state, []))))) = None"
proof -
  have w: "debouncedUpdate validateField CouponRate (- 5) (init (initial_state, [])) =
      (started_state\<lparr> app_state.couponRate := - 5, errors := [(CouponRate, ''couponRate'')] \<rparr>,
       [(''handleStateChange'', started_state),
        (''handleStateChange'',
         started_state\<lparr> app_state.couponRate := - 5,
                        errors := [(CouponRate, ''couponRate'')] \<rparr>)])"
    by (simp only: init_initial_state)
       (simp add: debouncedUpdate_def Let_def setState_eq object_assign_def
          hasErrors_def started_state_def initial_state_def)
  show ?thesis
    by (simp only: w)
       (simp add: updateCalculations_errors hasErrors_def setState_eq object_assign_def
          started_state_def initial_state_def)
qed

lemma debouncedUpdate_valid:
  assumes "validate fld v = None" and "AList.delete fld (errors s) = []"
  shows "debouncedUpdate validate fld v (s, calls) =
     (let s1 = object_assign s [SetField fld v, SetErrors []];
          s2 = s1\<lparr>bondCalculations := Some (calculateBondMetrics (state_parameters s1))\<rparr>
      in (s2, calls @ map (\<lambda>fn. (fn, s1)) (listeners s1) @ map (\<lambda>fn. (fn, s2)) (listeners s2)))"
proof -
  let ?s1 = "object_assign s [SetField fld v, SetErrors []]"
  let ?w1 = "(?s1, calls @ map (\<lambda>fn. (fn, ?s1)) (listeners ?s1))"
  have "debouncedUpdate validate fld v (s, calls) = updateCalculations ?w1"
    using assms by (simp add: debouncedUpdate_def Let_def hasErrors_def setState_eq)
  also have "\<dots> =
      setState [SetBondCalculations (Some (calculateBondMetrics (state_parameters ?s1)))] ?w1"
    using updateCalculations_no_errors [of ?w1]
    by (simp add: object_assign_field_errors hasErrors_def)
  finally show ?thesis
    by (simp add: setState_eq Let_def object_assign_def)
qed

text \<open>
  C8, as amended: every \<open>setState\<close> is one merge-then-notify step: the update is merged
  into the state, then every subscriber is called once, in the order of registration,
  with the whole merged state.  An input update with no validation error active makes
  two such steps, the field and the error map first and the recomputed bondCalculations
  second: subscribers first see the new field beside the previous bondCalculations, then
  the state whose bondCalculations is computed from the new inputs, which is the state
  the update ends in.
\<close>

theorem setState_merge_then_notify:
  "fst (setState updates w) = object_assign (fst w) updates \<and>
   (\<exists>new. snd (setState updates w) = snd w @ new \<and>
      map fst new = listeners (fst (setState updates w)) \<and>
      (\<forall>n \<in> set new. snd n = fst (setState updates w))) \<and>
   (validate fld v = None \<and> AList.delete fld (errors (fst w)) = [] \<longrightarrow>
      (let s1 = object_assign (fst w) [SetField fld v, SetErrors []];
           s2 = s1\<lparr>bondCalculations := Some (calculateBondMetrics (state_parameters s1))\<rparr>
       in bondCalculations s1 = bondCalculations (fst w) \<and>
          debouncedUpdate validate fld v w =
            (s2, snd w @ map (\<lambda>fn. (fn, s1)) (listeners s1) @
                         map (\<lambda>fn. (fn, s2)) (listeners s2))))"
proof (intro conjI impI)
  show "fst (setState updates w) = object_assign (fst w) updates"
    by (simp add: setState_def Let_def)
  let ?s = "object_assign (fst w) updates"
  have "snd (setState updates w) = snd w @ map (\<lambda>fn. (fn, ?s)) (listeners ?s)"
    by (simp add: setState_def Let_def)
  moreover have "map fst (map (\<lambda>fn. (fn, ?s)) (listeners ?s)) = listeners (fst (setState updates w))"
    by (simp add: setState_def Let_def o_def)
  moreover have "\<forall>n \<in> set (map (\<lambda>fn. (fn, ?s)) (listeners ?s)). snd n = fst (setState updates w)"
    by (auto simp: setState_def Let_def)
  ultimately show "\<exists>new. snd (setState updates w) = snd w @ new \<and>
      map fst new = listeners (fst (setState updates w)) \<and>
      (\<forall>n \<in> set new. snd n = fst (setState updates w))"
    by blast
next
  assume a: "validate fld v = None \<and> AList.delete fld (errors (fst w)) = []"
  obtain s calls where w: "w = (s, calls)" by (cases w)
  from a w have "debouncedUpdate validate fld v (s, calls) =
     (let s1 = object_assign s [SetField fld v, SetErrors []];
          s2 = s1\<lparr>bondCalculations := Some (calculateBondMetrics (state_parameters s1))\<rparr>
      in (s2, calls @ map (\<lambda>fn. (fn, s1)) (listeners s1) @ map (\<lambda>fn. (fn, s2)) (listeners s2)))"
    by (intro debouncedUpdate_valid) simp_all
  then show "let s1 = object_assign (fst w) [SetField fld v, SetErrors []];
           s2 = s1\<lparr>bondCalculations := Some (calculateBondMetrics (state_parameters s1))\<rparr>
       in bondCalculations s1 = bondCalculations (fst w) \<and>
          debouncedUpdate validate fld v w =
            (s2, snd w @ map (\<lambda>fn. (fn, s1)) (listeners s1) @
                         map (\<lambda>fn. (fn, s2)) (listeners s2))"
    by (simp add: w Let_def object_assign_field_errors)
qed

lemma periodicCoupon_default:
  "ValuationResult.periodicCoupon (calculateBondMetrics default_parameters) = Num (43 / 10)"
  by (simp add: calculateBondMetrics_def Let_def calculateBondPrice_def default_parameters_def)

lemma periodicCoupon_ten:
  "ValuationResult.periodicCoupon
     (calculateBondMetrics (state_parameters (started_state\<lparr>app_state.couponRate := 10\<rparr>))) = Num 5"
  by (simp add: calculateBondMetrics_def Let_def calculateBondPrice_def state_parameters_def
      started_state_def initial_state_def)

theorem setState_merge_then_notify_witness:
  "validateField CouponRate 10 = None \<and> AList.delete CouponRate (errors started_state) = [] \<and>
   debouncedUpdate validateField CouponRate 10
     (started_state, [(''handleStateChange'', started_state)]) =
     (started_state\<lparr> app_state.couponRate := 10,
        bondCalculations := Some (calculateBondMetrics
          (state_parameters (started_state\<lparr>app_state.couponRate := 10\<rparr>))) \<rparr>,
      [(''handleStateChange'', started_state),
       (''handleStateChange'', started_state\<lparr>app_state.couponRate := 10\<rparr>),
       (''handleStateChange'',
        started_state\<lparr> app_state.couponRate := 10,
          bondCalculations := Some (calculateBondMetrics
            (state_parameters (started_state\<lparr>app_state.couponRate := 10\<rparr>))) \<rparr>)])"
  using setState_merge_then_notify
    [of "[]" "(started_state, [(''handleStateChange'', started_state)])" validateField
      CouponRate 10]
  by (simp add: Let_def object_assign_def started_state_def initial_state_def)

text \<open>
  The claim as written fails on the first of the two steps: after the start, entering
  the coupon rate 10 calls the subscriber with a state whose couponRate is 10 and whose
  bondCalculations is still the result for the coupon rate 8.6.
\<close>

theorem intermediate_state_counterexample:
  "snd (debouncedUpdate validateField CouponRate 10 (init (initial_state, []))) ! 1 =
     (''handleStateChange'', started_state\<lparr>app_state.couponRate := 10\<rparr>) \<and>
   app_state.couponRate (started_state\<lparr>app_state.couponRate := 10\<rparr>) = 10 \<and>
   bondCalculations (started_state\<lparr>app_state.couponRate := 10\<rparr>) =
     Some (calculateBondMetrics default_parameters) \<and>
   calculateBondMetrics default_parameters \<noteq>
     calculateBondMetrics (state_parameters (started_state\<lparr>app_state.couponRate := 10\<rparr>))"
proof -
  have "AList.delete CouponRate (errors started_state) = []"
    by (simp add: started_state_def initial_state_def)
  then have "debouncedUpdate validateField CouponRate 10
      (started_state, [(''handleStateChange'', started_state)]) =
     (let s1 = object_assign started_state [SetField CouponRate 10, SetErrors []];
          s2 = s1\<lparr>bondCalculations := Some (calculateBondMetrics (state_parameters s1))\<rparr>
      in (s2, [(''handleStateChange'', started_state)] @
              map (\<lambda>fn. (fn, s1)) (listeners s1) @ map (\<lambda>fn. (fn, s2)) (listeners s2)))"
    by (intro debouncedUpdate_valid) simp_all
  then have first: "snd (debouncedUpdate validateField CouponRate 10 (init (initial_state, []))) ! 1 =
     (''handleStateChange'', started_state\<lparr>app_state.couponRate := 10\<rparr>)"
    by (simp only: init_initial_state)
       (simp add: Let_def object_assign_def started_state_def initial_state_def)
  have differ: "calculateBondMetrics default_parameters \<noteq>
     calculateBondMetrics (state_parameters (started_state\<lparr>app_state.couponRate := 10\<rparr>))"
  proof
    assume "calculateBondMetrics default_parameters =
      calculateBondMetrics (state_parameters (started_state\<lparr>app_state.couponRate := 10\<rparr>))"
    then have "ValuationResult.periodicCoupon (calculateBondMetrics default_parameters) =
      ValuationResult.periodicCoupon
        (calculateBondMetrics (state_parameters (started_state\<lparr>app_state.couponRate := 10\<rparr>)))"
      by simp
    then show False
      by (simp add: periodicCoupon_default periodicCoupon_ten)
  qed
  from first differ show ?thesis
    by (simp add: started_state_def)
qed

end
